theory Spec2Isabelle
  imports Complex_Main "HOL-Library.AList"
begin

section \<open>The BirdEye client (birdeye.py)\<close>

text \<open>
  A shallow embedding of \<^verbatim>\<open>src/birdeye.py\<close>: the two result tuples, the class
  \<^verbatim>\<open>BirdEyeClient\<close> with its header property, its HTTP dispatch and its two fetch
  operations.

  The client talks to the network through the \<^verbatim>\<open>requests\<close> library, which is not part of
  the repository. The network is therefore a parameter of every operation: a function
  that answers a request, given the requests issued before it. The requests issued so far
  are the state that the operations thread through, so that "no request is issued" is the
  statement that this list is returned unchanged.
\<close>

subsection \<open>Python values\<close>

text \<open>
  What \<^verbatim>\<open>resp.json()\<close> returns: the Python value of a JSON text. An object is a
  \<^verbatim>\<open>dict\<close> with string keys, modelled as a map. Numbers are carried around by the client
  and never computed with, so a float is represented by the real number it denotes.
\<close>

datatype json =
    JNull
  | JBool bool
  | JInt int
  | JFloat real
  | JStr string
  | JArr "json list"
  | JObj "string \<Rightarrow> json option"

text \<open>
  The exceptions that can cross the client. \<open>ValueError\<close> stands for the class and all its
  subclasses (the JSON decoding errors of \<^verbatim>\<open>requests\<close> are among them), with the message;
  \<open>KeyError\<close> carries the missing key; \<open>TypeError\<close> carries the type name of the object
  that was subscripted; \<open>OtherException\<close> is any exception that is none of these (a
  connection error, a timeout).
\<close>

datatype exn =
    ValueError string
  | KeyError string
  | TypeError string
  | OtherException string

text \<open>\<^verbatim>\<open>data[key]\<close> with a string key, on each kind of value that JSON decoding produces.\<close>

fun subscript :: "json \<Rightarrow> string \<Rightarrow> exn + json" where
  "subscript (JObj d) k = (case d k of None \<Rightarrow> Inl (KeyError k) | Some v \<Rightarrow> Inr v)"
| "subscript (JArr xs) k = Inl (TypeError ''list'')"
| "subscript (JStr s) k = Inl (TypeError ''str'')"
| "subscript (JInt i) k = Inl (TypeError ''int'')"
| "subscript (JFloat x) k = Inl (TypeError ''float'')"
| "subscript (JBool b) k = Inl (TypeError ''bool'')"
| "subscript JNull k = Inl (TypeError ''NoneType'')"

text \<open>
  \<^verbatim>\<open>str.upper()\<close>. A \<^typ>\<open>string\<close> is read as a Python string whose code points are below
  256. On ASCII the function is Python's. A string with a code point from 128 to 255
  keeps, in Python as here, a character that is not an ASCII letter (or gains \<^verbatim>\<open>SS\<close>
  from a sharp s), so the comparisons of the result with \<^verbatim>\<open>GET\<close> and \<^verbatim>\<open>POST\<close>, the only
  use the client makes of it, come out as in Python.
\<close>

definition upper_char :: "char \<Rightarrow> char" where
  "upper_char c =
     (if (97::nat) \<le> of_char c \<and> of_char c \<le> (122::nat)
      then char_of (of_char c - (32::nat)) else c)"

definition upper :: "string \<Rightarrow> string" where
  "upper s = map upper_char s"

subsection \<open>Result tuples\<close>

text \<open>
  The two \<^verbatim>\<open>NamedTuple\<close> classes. Python does not enforce the annotated field types, and
  the client stores whatever the JSON body holds under the key, so every field has the
  type of JSON values.
\<close>

record PriceInfo =
  price :: json

record TokenOverview =
  address :: json
  decimals :: json
  liquidity :: json
  logoURI :: json
  mc :: json
  symbol :: json
  v24hChangePercent :: json
  v24hUSD :: json
  name :: json
  lastTradeUnixTime :: json

subsection \<open>The network\<close>

datatype verb = GET | POST

record request =
  req_verb :: verb
  req_url :: string
  req_headers :: "(string \<times> string) list"

text \<open>
  Of a \<^verbatim>\<open>requests.Response\<close> the client could read the status code and calls
  \<^verbatim>\<open>json()\<close>, which returns the decoded body or raises a \<open>ValueError\<close> with a message
  (\<open>Inl\<close>).
\<close>

record response =
  status_code :: int
  json_body :: "string + json"

datatype outcome = Returns response | Raises exn

type_synonym network = "request list \<Rightarrow> request \<Rightarrow> outcome"

text \<open>
  \<^verbatim>\<open>requests.get\<close> and \<^verbatim>\<open>requests.post\<close>: the call is recorded in the list of issued
  requests, and returns the response or raises, as the network decides.
\<close>

definition send :: "network \<Rightarrow> request \<Rightarrow> request list \<Rightarrow> (exn + response) \<times> request list" where
  "send net r sent =
     ((case net sent r of Returns resp \<Rightarrow> Inr resp | Raises e \<Rightarrow> Inl e), sent @ [r])"

text \<open>\<^verbatim>\<open>resp.json()\<close>\<close>

definition json_of :: "response \<Rightarrow> exn + json" where
  "json_of resp = (case json_body resp of Inl msg \<Rightarrow> Inl (ValueError msg) | Inr v \<Rightarrow> Inr v)"

subsection \<open>BirdEyeClient\<close>

text \<open>
  The property \<^verbatim>\<open>_headers\<close>; \<open>tok\<close> is \<^verbatim>\<open>Config.BIRD_EYE_TOKEN\<close>, read from the environment
  when the module is loaded.
\<close>

definition headers :: "string \<Rightarrow> (string \<times> string) list" where
  "headers tok =
     [(''accept'', ''application/json''), (''x-chain'', ''solana''), (''X-API-KEY'', tok)]"

text \<open>The message of the \<open>ValueError\<close> raised by \<^verbatim>\<open>_make_api_call\<close> (line 51).\<close>

definition unrecognised_method :: "string \<Rightarrow> string \<Rightarrow> string" where
  "unrecognised_method method query_url =
     ''Unrecognised method '' @ [CHR 0x22] @ method @ [CHR 0x22] @
     '' passed for query - '' @ query_url"

text \<open>
  \<^verbatim>\<open>_make_api_call\<close>, called as both fetch operations call it, with a method and a URL
  and no further arguments.
\<close>

definition make_api_call ::
  "network \<Rightarrow> string \<Rightarrow> string \<Rightarrow> string \<Rightarrow> request list \<Rightarrow> (exn + response) \<times> request list" where
  "make_api_call net tok method query_url sent =
     (if upper method = ''GET'' then
        send net \<lparr>req_verb = GET, req_url = query_url, req_headers = headers tok\<rparr> sent
      else if upper method = ''POST'' then
        send net \<lparr>req_verb = POST, req_url = query_url, req_headers = headers tok\<rparr> sent
      else (Inl (ValueError (unrecognised_method method query_url)), sent))"

text \<open>\<^verbatim>\<open>except (ValueError, KeyError)\<close>: the classes the two handlers catch.\<close>

fun caught :: "exn \<Rightarrow> bool" where
  "caught (ValueError m) = True"
| "caught (KeyError k) = True"
| "caught (TypeError t) = False"
| "caught (OtherException m) = False"

text \<open>A handler that replaces every caught exception by a \<open>ValueError\<close> with message \<open>msg\<close>.\<close>

definition except :: "string \<Rightarrow> exn + 'a \<Rightarrow> exn + 'a" where
  "except msg r =
     (case r of Inl e \<Rightarrow> if caught e then Inl (ValueError msg) else Inl e | Inr v \<Rightarrow> Inr v)"

text \<open>Sequencing of two steps of which the first may raise.\<close>

definition bind :: "exn + 'a \<Rightarrow> ('a \<Rightarrow> exn + 'b) \<Rightarrow> exn + 'b" where
  "bind r f = (case r of Inl e \<Rightarrow> Inl e | Inr v \<Rightarrow> f v)"

subsubsection \<open>fetch_prices\<close>

definition price_url :: "string \<Rightarrow> string" where
  "price_url addr = ''https://public-api.birdeye.so/public/price?address='' @ addr"

definition invalid_price_response :: "string \<Rightarrow> string" where
  "invalid_price_response addr = ''Invalid response received for token: '' @ addr"

text \<open>
  The body of the \<^verbatim>\<open>try\<close> (lines 78 to 80) up to the value that is stored under the
  address.
\<close>

definition price_info :: "response \<Rightarrow> exn + PriceInfo" where
  "price_info resp =
     bind (json_of resp) (\<lambda>data.
     bind (subscript data ''value'') (\<lambda>v. Inr \<lparr>price = v\<rparr>))"

text \<open>
  The \<^verbatim>\<open>for\<close> loop (lines 75 to 82) on the addresses that remain. \<open>prices\<close> is the
  dictionary built so far, in insertion order: an assignment to a key that is present
  replaces its value in place, to a new key appends an entry.
\<close>

fun fetch_prices_loop ::
  "network \<Rightarrow> string \<Rightarrow> string list \<Rightarrow> (string \<times> PriceInfo) list \<Rightarrow> request list \<Rightarrow>
     (exn + (string \<times> PriceInfo) list) \<times> request list" where
  "fetch_prices_loop net tok [] prices sent = (Inr prices, sent)"
| "fetch_prices_loop net tok (addr # rest) prices sent =
     (case make_api_call net tok ''GET'' (price_url addr) sent of (r, sent') \<Rightarrow>
        (case except (invalid_price_response addr) (bind r price_info) of
           Inl e \<Rightarrow> (Inl e, sent')
         | Inr p \<Rightarrow> fetch_prices_loop net tok rest (AList.update addr p prices) sent'))"

definition fetch_prices ::
  "network \<Rightarrow> string \<Rightarrow> string list \<Rightarrow> request list \<Rightarrow>
     (exn + (string \<times> PriceInfo) list) \<times> request list" where
  "fetch_prices net tok token_addresses sent =
     (if token_addresses = [] then (Inl (ValueError ''No tokens provided.''), sent)
      else fetch_prices_loop net tok token_addresses [] sent)"

subsubsection \<open>fetch_token_overview\<close>

definition overview_url :: "string \<Rightarrow> string" where
  "overview_url addr = ''https://public-api.birdeye.so/defi/token_overview?address='' @ addr"

definition invalid_overview_response :: "string \<Rightarrow> string" where
  "invalid_overview_response addr = ''Invalid response received for token overview: '' @ addr"

text \<open>The ten subscripts of lines 106 to 115, evaluated in the order they are written.\<close>

definition token_overview :: "response \<Rightarrow> exn + TokenOverview" where
  "token_overview resp =
     bind (json_of resp) (\<lambda>data.
     bind (subscript data ''address'') (\<lambda>v1.
     bind (subscript data ''decimals'') (\<lambda>v2.
     bind (subscript data ''liquidity'') (\<lambda>v3.
     bind (subscript data ''logoURI'') (\<lambda>v4.
     bind (subscript data ''mc'') (\<lambda>v5.
     bind (subscript data ''symbol'') (\<lambda>v6.
     bind (subscript data ''v24hChangePercent'') (\<lambda>v7.
     bind (subscript data ''v24hUSD'') (\<lambda>v8.
     bind (subscript data ''name'') (\<lambda>v9.
     bind (subscript data ''lastTradeUnixTime'') (\<lambda>v10.
       Inr \<lparr>address = v1, decimals = v2, liquidity = v3, logoURI = v4, mc = v5,
            symbol = v6, v24hChangePercent = v7, v24hUSD = v8, name = v9,
            lastTradeUnixTime = v10\<rparr>)))))))))))"

definition fetch_token_overview ::
  "network \<Rightarrow> string \<Rightarrow> string \<Rightarrow> request list \<Rightarrow> (exn + TokenOverview) \<times> request list" where
  "fetch_token_overview net tok addr sent =
     (case make_api_call net tok ''GET'' (overview_url addr) sent of (r, sent') \<Rightarrow>
        (except (invalid_overview_response addr) (bind r token_overview), sent'))"

section \<open>Vocabulary of the properties\<close>

text \<open>The request that \<^verbatim>\<open>fetch_prices\<close> issues for an address, and \<^verbatim>\<open>fetch_token_overview\<close>'s.\<close>

definition price_request :: "string \<Rightarrow> string \<Rightarrow> request" where
  "price_request tok addr =
     \<lparr>req_verb = GET, req_url = price_url addr, req_headers = headers tok\<rparr>"

definition overview_request :: "string \<Rightarrow> string \<Rightarrow> request" where
  "overview_request tok addr =
     \<lparr>req_verb = GET, req_url = overview_url addr, req_headers = headers tok\<rparr>"

text \<open>
  What the network answers to the requests \<open>rs\<close> when they are issued one after the other,
  after the requests \<open>sent\<close>.
\<close>

fun answers :: "network \<Rightarrow> request list \<Rightarrow> request list \<Rightarrow> outcome list" where
  "answers net sent [] = []"
| "answers net sent (r # rs) = net sent r # answers net (sent @ [r]) rs"

text \<open>
  The value under \<^verbatim>\<open>value\<close> of an answer that is a response whose body is a JSON object
  with that key; \<open>None\<close> for every other answer.
\<close>

definition value_of :: "outcome \<Rightarrow> json option" where
  "value_of out =
     (case out of
        Returns resp \<Rightarrow> (case json_body resp of Inr (JObj d) \<Rightarrow> d ''value'' | _ \<Rightarrow> None)
      | Raises e \<Rightarrow> None)"

text \<open>
  An answer that is a response whose body is not JSON, or is a JSON object without the
  key \<open>k\<close>.
\<close>

definition lacks :: "string \<Rightarrow> outcome \<Rightarrow> bool" where
  "lacks k out =
     (case out of
        Returns resp \<Rightarrow>
          (case json_body resp of Inl msg \<Rightarrow> True | Inr (JObj d) \<Rightarrow> d k = None | _ \<Rightarrow> False)
      | Raises e \<Rightarrow> False)"

text \<open>The keys that \<^verbatim>\<open>fetch_token_overview\<close> reads.\<close>

definition overview_keys :: "string list" where
  "overview_keys =
     [''address'', ''decimals'', ''liquidity'', ''logoURI'', ''mc'', ''symbol'',
      ''v24hChangePercent'', ''v24hUSD'', ''name'', ''lastTradeUnixTime'']"

text \<open>An answer with its status code blanked out.\<close>

definition without_status :: "outcome \<Rightarrow> outcome" where
  "without_status out =
     (case out of Returns resp \<Rightarrow> Returns (resp\<lparr>status_code := 0\<rparr>) | Raises e \<Rightarrow> Raises e)"

text \<open>
  The three kinds of error of the specification. All three are raised as a \<open>ValueError\<close>;
  \<open>error_kind\<close> is the test a caller can make on the message to tell them apart.
\<close>

datatype error_kind = InvalidInput | InvalidResponse | UnsupportedMethod

definition starts_with :: "string \<Rightarrow> string \<Rightarrow> bool" where
  "starts_with p s = (take (length p) s = p)"

definition error_kind :: "exn \<Rightarrow> error_kind option" where
  "error_kind e =
     (case e of
        ValueError m \<Rightarrow>
          if m = ''No tokens provided.'' then Some InvalidInput
          else if starts_with ''Invalid response received for token'' m then Some InvalidResponse
          else if starts_with ''Unrecognised method '' m then Some UnsupportedMethod
          else None
      | _ \<Rightarrow> None)"

subsection \<open>Networks used as examples\<close>

text \<open>A network that answers every request with the same status code and body.\<close>

definition fixed_net :: "int \<Rightarrow> string + json \<Rightarrow> network" where
  "fixed_net st body sent r = Returns \<lparr>status_code = st, json_body = body\<rparr>"

text \<open>The network of the specification's example: a price for each of two addresses.\<close>

definition example_net :: network where
  "example_net sent r =
     (if req_url r = price_url ''ADDR1''
      then Returns \<lparr>status_code = 200, json_body = Inr (JObj [''value'' \<mapsto> JFloat 1.23])\<rparr>
      else Returns \<lparr>status_code = 200, json_body = Inr (JObj [''value'' \<mapsto> JFloat 4.56])\<rparr>)"

text \<open>A network whose price is the number of requests it has answered before.\<close>

definition counting_net :: network where
  "counting_net sent r =
     Returns \<lparr>status_code = 200,
              json_body = Inr (JObj [''value'' \<mapsto> JInt (int (length sent))])\<rparr>"

text \<open>An overview body with the ten keys and one more.\<close>

definition example_overview :: "string \<Rightarrow> json option" where
  "example_overview =
     [''address'' \<mapsto> JStr ''So11'', ''decimals'' \<mapsto> JInt 9, ''liquidity'' \<mapsto> JFloat 1.5,
      ''logoURI'' \<mapsto> JStr ''https://x/y.png'', ''mc'' \<mapsto> JFloat 2.5, ''symbol'' \<mapsto> JStr ''SOL'',
      ''v24hChangePercent'' \<mapsto> JFloat (- 0.5), ''v24hUSD'' \<mapsto> JInt 7, ''name'' \<mapsto> JStr ''Solana'',
      ''lastTradeUnixTime'' \<mapsto> JInt 1700000000, ''extra'' \<mapsto> JNull]"

text \<open>The price of each address in the specification's example.\<close>

definition example_price :: "string \<Rightarrow> json" where
  "example_price a = (if a = ''ADDR1'' then JFloat 1.23 else JFloat 4.56)"

text \<open>The bodies \<^verbatim>\<open>{"value": 1.23}\<close> and \<^verbatim>\<open>{}\<close>.\<close>

definition example_body :: "string + json" where
  "example_body = Inr (JObj [''value'' \<mapsto> JFloat 1.23])"

definition empty_object :: "string + json" where
  "empty_object = Inr (JObj Map.empty)"

section \<open>Auxiliary facts\<close>

subsection \<open>Dispatch with the literal method of the two operations\<close>

lemma upper_GET: "upper ''GET'' = ''GET''"
  by (simp add: upper_def upper_char_def)

lemma upper_DELETE: "upper ''DELETE'' = ''DELETE''"
  by code_simp

lemma upper_get: "upper ''get'' = ''GET''"
  by code_simp

lemma upper_Post: "upper ''Post'' = ''POST''"
  by code_simp

lemma make_api_call_GET:
  "make_api_call net tok ''GET'' url sent =
     send net \<lparr>req_verb = GET, req_url = url, req_headers = headers tok\<rparr> sent"
  by (simp add: make_api_call_def upper_GET)

subsection \<open>One round of the price loop\<close>

lemma price_step:
  "fetch_prices_loop net tok (addr # rest) prices sent =
     (case except (invalid_price_response addr)
             (bind (case net sent (price_request tok addr) of
                      Returns resp \<Rightarrow> Inr resp | Raises e \<Rightarrow> Inl e) price_info) of
        Inl e \<Rightarrow> (Inl e, sent @ [price_request tok addr])
      | Inr p \<Rightarrow> fetch_prices_loop net tok rest (AList.update addr p prices)
                  (sent @ [price_request tok addr]))"
  by (simp add: make_api_call_GET send_def price_request_def cong: sum.case_cong)

lemma price_info_value:
  "value_of out = Some v \<Longrightarrow>
     except msg (bind (case out of Returns resp \<Rightarrow> Inr resp | Raises e \<Rightarrow> Inl e) price_info)
       = Inr \<lparr>price = v\<rparr>"
  by (auto simp: value_of_def except_def bind_def price_info_def json_of_def
           split: outcome.splits sum.splits json.splits)

lemma price_info_lacks:
  "lacks ''value'' out \<Longrightarrow>
     except msg (bind (case out of Returns resp \<Rightarrow> Inr resp | Raises e \<Rightarrow> Inl e) price_info)
       = Inl (ValueError msg)"
  by (auto simp: lacks_def except_def bind_def price_info_def json_of_def
           split: outcome.splits sum.splits json.splits)

lemma except_caught: "except msg r = Inl e \<Longrightarrow> caught e \<Longrightarrow> e = ValueError msg"
  by (auto simp: except_def split: sum.splits if_splits)

lemma length_answers: "length (answers net sent rs) = length rs"
  by (induction rs arbitrary: sent) simp_all

subsection \<open>Runs of the price loop\<close>

text \<open>When every answer holds a value, the loop stores them all, one request each.\<close>

lemma loop_all_values:
  "map value_of (answers net sent (map (price_request tok) addrs)) = map Some vs \<Longrightarrow>
   fetch_prices_loop net tok addrs prices sent =
     (Inr (AList.updates addrs (map (\<lambda>v. \<lparr>price = v\<rparr>) vs) prices),
      sent @ map (price_request tok) addrs)"
proof (induction addrs arbitrary: prices sent vs)
  case Nil
  then show ?case by simp
next
  case (Cons a addrs)
  from Cons.prems obtain v vs' where vs: "vs = v # vs'"
    and v: "value_of (net sent (price_request tok a)) = Some v"
    and rest: "map value_of
      (answers net (sent @ [price_request tok a]) (map (price_request tok) addrs)) = map Some vs'"
    by (cases vs) auto
  show ?case
    unfolding price_step
    by (simp add: price_info_value[OF v] Cons.IH[OF rest] vs)
qed

text \<open>The loop stops at the first answer that is unusable, after the request for it.\<close>

lemma loop_first_failure:
  "map value_of (answers net sent (map (price_request tok) pre)) = map Some vs \<Longrightarrow>
   lacks ''value'' (net (sent @ map (price_request tok) pre) (price_request tok addr)) \<Longrightarrow>
   fetch_prices_loop net tok (pre @ addr # post) prices sent =
     (Inl (ValueError (invalid_price_response addr)),
      sent @ map (price_request tok) (pre @ [addr]))"
proof (induction pre arbitrary: prices sent vs)
  case Nil
  then show ?case
    unfolding append_Nil price_step
    by (simp add: price_info_lacks)
next
  case (Cons a pre)
  from Cons.prems(1) obtain v vs' where vs: "vs = v # vs'"
    and v: "value_of (net sent (price_request tok a)) = Some v"
    and rest: "map value_of
      (answers net (sent @ [price_request tok a]) (map (price_request tok) pre)) = map Some vs'"
    by (cases vs) auto
  from Cons.prems(2) have bad: "lacks ''value''
      (net ((sent @ [price_request tok a]) @ map (price_request tok) pre) (price_request tok addr))"
    by simp
  show ?case
    unfolding append_Cons price_step
    by (simp add: price_info_value[OF v] Cons.IH[OF rest bad])
qed

text \<open>An error of the loop that one of its handlers could have raised names an address.\<close>

lemma loop_error:
  "fetch_prices_loop net tok addrs prices sent = (Inl e, s') \<Longrightarrow> caught e \<Longrightarrow>
     \<exists>a \<in> set addrs. e = ValueError (invalid_price_response a)"
proof (induction addrs arbitrary: prices sent)
  case Nil
  then show ?case by simp
next
  case (Cons a addrs)
  let ?r = "except (invalid_price_response a)
             (bind (case net sent (price_request tok a) of
                      Returns resp \<Rightarrow> Inr resp | Raises e \<Rightarrow> Inl e) price_info)"
  show ?case
  proof (cases ?r)
    case (Inl e')
    with Cons.prems(1) have "e' = e"
      by (simp add: price_step del: fetch_prices_loop.simps)
    with Inl Cons.prems(2) have "e = ValueError (invalid_price_response a)"
      by (auto dest: except_caught)
    then show ?thesis by simp
  next
    case (Inr p)
    with Cons.prems(1) have "fetch_prices_loop net tok addrs (AList.update a p prices)
        (sent @ [price_request tok a]) = (Inl e, s')"
      by (simp add: price_step del: fetch_prices_loop.simps)
    from Cons.IH[OF this Cons.prems(2)] show ?thesis by auto
  qed
qed

subsection \<open>Successive updates of a dictionary\<close>

lemma upds_same:
  "a \<in> set ks \<Longrightarrow> (m(ks [\<mapsto>] map f ks)) a = Some (f a)"
proof (induction ks arbitrary: m)
  case Nil
  then show ?case by simp
next
  case (Cons k ks)
  show ?case
  proof (cases "a \<in> set ks")
    case True
    then show ?thesis using Cons.IH by simp
  next
    case False
    with Cons.prems have "a = k" by simp
    with False show ?thesis by simp
  qed
qed

lemma upds_last:
  "i < length ks \<Longrightarrow> length vs = length ks \<Longrightarrow> ks ! i \<notin> set (drop (Suc i) ks) \<Longrightarrow>
     (m(ks [\<mapsto>] vs)) (ks ! i) = Some (vs ! i)"
proof (induction ks arbitrary: m vs i)
  case Nil
  then show ?case by simp
next
  case (Cons k ks)
  from Cons.prems(2) obtain v vs' where vs: "vs = v # vs'" and len: "length vs' = length ks"
    by (cases vs) auto
  show ?case
  proof (cases i)
    case 0
    with Cons.prems(3) have "k \<notin> set ks" by simp
    with 0 vs show ?thesis by simp
  next
    case (Suc j)
    with Cons.prems have "j < length ks" and "ks ! j \<notin> set (drop (Suc j) ks)" by auto
    from Cons.IH[OF this(1) len this(2)] Suc vs show ?thesis by simp
  qed
qed

lemma all_some: "None \<notin> set xs \<Longrightarrow> xs = map Some (map the xs)"
  by (induction xs) auto

subsection \<open>The overview operation\<close>

lemma overview_step:
  "fetch_token_overview net tok addr sent =
     (except (invalid_overview_response addr)
        (bind (case net sent (overview_request tok addr) of
                 Returns resp \<Rightarrow> Inr resp | Raises e \<Rightarrow> Inl e) token_overview),
      sent @ [overview_request tok addr])"
  by (simp add: fetch_token_overview_def make_api_call_GET send_def overview_request_def)

lemma token_overview_missing:
  assumes "json_body resp = Inr (JObj d)" and "k \<in> set overview_keys" and "d k = None"
  shows "\<exists>k'. token_overview resp = Inl (KeyError k')"
  using assms
  by (auto simp: token_overview_def json_of_def bind_def overview_keys_def
           split: option.splits)

lemma token_overview_not_json:
  assumes "json_body resp = Inl msg"
  shows "token_overview resp = Inl (ValueError msg)"
  using assms by (simp add: token_overview_def json_of_def bind_def)

section \<open>Properties\<close>

subsection \<open>Prices of a batch of addresses\<close>

text \<open>
  C1. Let the list of addresses be non-empty, and let the network answer the request for
  each address \<open>a\<close> of the list with a response whose body is a JSON object that holds
  \<open>val a\<close> under \<^verbatim>\<open>value\<close>. Then \<^verbatim>\<open>fetch_prices\<close> returns a dictionary, after one request
  per element of the list; the keys of the dictionary are exactly the addresses of the
  list, each once; and every address \<open>a\<close> is mapped to the \<^verbatim>\<open>PriceInfo\<close> whose price is
  \<open>val a\<close>.
\<close>

theorem fetch_prices_well_formed:
  assumes "token_addresses \<noteq> []"
    and "map value_of (answers net sent (map (price_request tok) token_addresses)) =
           map (Some \<circ> val) token_addresses"
  shows "\<exists>prices.
           fetch_prices net tok token_addresses sent =
             (Inr prices, sent @ map (price_request tok) token_addresses) \<and>
           fst ` set prices = set token_addresses \<and>
           distinct (map fst prices) \<and>
           (\<forall>a \<in> set token_addresses. map_of prices a = Some \<lparr>price = val a\<rparr>)"
proof -
  let ?ps = "AList.updates token_addresses
               (map (\<lambda>v. \<lparr>price = v\<rparr>) (map val token_addresses)) []"
  from assms(2)
  have "map value_of (answers net sent (map (price_request tok) token_addresses)) =
          map Some (map val token_addresses)"
    by simp
  from loop_all_values[OF this] assms(1)
  have run: "fetch_prices net tok token_addresses sent =
               (Inr ?ps, sent @ map (price_request tok) token_addresses)"
    by (simp add: fetch_prices_def)
  have "dom (map_of ?ps) = set token_addresses"
    by (simp add: updates_conv')
  then have keys: "fst ` set ?ps = set token_addresses"
    by (simp add: dom_map_of_conv_image_fst)
  have dist: "distinct (map fst ?ps)"
    by (simp add: distinct_updates)
  have vals: "\<forall>a \<in> set token_addresses. map_of ?ps a = Some \<lparr>price = val a\<rparr>"
    using upds_same[where ks = token_addresses and f = "\<lambda>a. \<lparr>price = val a\<rparr>"
                      and m = Map.empty]
    by (simp add: updates_conv' comp_def)
  from run keys dist vals show ?thesis by blast
qed

text \<open>
  The example of the specification: the prices 1.23 of \<^verbatim>\<open>ADDR1\<close> and 4.56 of \<^verbatim>\<open>ADDR2\<close>.
\<close>

theorem fetch_prices_well_formed_witness:
  "[''ADDR1'', ''ADDR2''] \<noteq> [] \<and>
   map value_of (answers example_net [] (map (price_request ''k'') [''ADDR1'', ''ADDR2''])) =
     map (Some \<circ> example_price) [''ADDR1'', ''ADDR2''] \<and>
   fetch_prices example_net ''k'' [''ADDR1'', ''ADDR2''] [] =
     (Inr [(''ADDR1'', \<lparr>price = JFloat 1.23\<rparr>), (''ADDR2'', \<lparr>price = JFloat 4.56\<rparr>)],
      [price_request ''k'' ''ADDR1'', price_request ''k'' ''ADDR2''])"
proof -
  have h1: "[''ADDR1'', ''ADDR2''] \<noteq> []" by simp
  have h2: "map value_of
      (answers example_net [] (map (price_request ''k'') [''ADDR1'', ''ADDR2''])) =
     map (Some \<circ> example_price) [''ADDR1'', ''ADDR2'']"
    by (simp add: example_net_def example_price_def value_of_def price_request_def
          price_url_def)
  from fetch_prices_well_formed[OF h1 h2] obtain prices where
    run: "fetch_prices example_net ''k'' [''ADDR1'', ''ADDR2''] [] =
            (Inr prices, [] @ map (price_request ''k'') [''ADDR1'', ''ADDR2''])"
    and keys: "fst ` set prices = set [''ADDR1'', ''ADDR2'']"
    and dist: "distinct (map fst prices)"
    and vals: "\<forall>a \<in> set [''ADDR1'', ''ADDR2''].
                 map_of prices a = Some \<lparr>price = example_price a\<rparr>"
    by blast
  have "fetch_prices example_net ''k'' [''ADDR1'', ''ADDR2''] [] =
     (Inr [(''ADDR1'', \<lparr>price = JFloat 1.23\<rparr>), (''ADDR2'', \<lparr>price = JFloat 4.56\<rparr>)],
      [price_request ''k'' ''ADDR1'', price_request ''k'' ''ADDR2''])"
    by (simp add: fetch_prices_def make_api_call_GET send_def example_net_def
          price_request_def price_url_def except_def bind_def price_info_def json_of_def)
  with h1 h2 run show ?thesis by simp
qed

text \<open>
  What the handler of the loop does catch. If the network answers the requests for the
  addresses \<open>pre\<close> at the head of the list with JSON objects that hold a \<^verbatim>\<open>value\<close>, and
  the request for the next address \<open>addr\<close> with a response whose body is not JSON or is a
  JSON object without \<^verbatim>\<open>value\<close>, then \<^verbatim>\<open>fetch_prices\<close> raises the \<open>ValueError\<close> "Invalid
  response received for token: \<open>addr\<close>", whatever follows \<open>addr\<close> in the list, and issues
  no request for the addresses after \<open>addr\<close>.
\<close>

lemma loop_handler_catches:
  assumes "None \<notin> set (map value_of (answers net sent (map (price_request tok) pre)))"
    and "lacks ''value'' (net (sent @ map (price_request tok) pre) (price_request tok addr))"
  shows "fetch_prices net tok (pre @ addr # post) sent =
           (Inl (ValueError (''Invalid response received for token: '' @ addr)),
            sent @ map (price_request tok) (pre @ [addr]))"
proof -
  let ?vs = "map value_of (answers net sent (map (price_request tok) pre))"
  from assms(1) have "?vs = map Some (map the ?vs)"
    by (rule all_some)
  from loop_first_failure[OF this assms(2)] show ?thesis
    by (simp add: fetch_prices_def invalid_price_response_def)
qed

text \<open>
  C2. A response without the key \<^verbatim>\<open>value\<close> is to make \<^verbatim>\<open>fetch_prices\<close> raise the
  \<open>ValueError\<close> that names the address. The body \<^verbatim>\<open>null\<close> is JSON and has no key
  \<^verbatim>\<open>value\<close>; on it the subscript \<^verbatim>\<open>data['value']\<close> raises a \<open>TypeError\<close>, which
  \<^verbatim>\<open>except (ValueError, KeyError)\<close> does not catch. The call for the single address
  \<^verbatim>\<open>ADDR1\<close> ends with that \<open>TypeError\<close>, not with the \<open>ValueError\<close> "Invalid response
  received for token: ADDR1".
\<close>

theorem fetch_prices_null_body:
  "value_of (fixed_net 200 (Inr JNull) [] (price_request ''k'' ''ADDR1'')) = None \<and>
   fetch_prices (fixed_net 200 (Inr JNull)) ''k'' [''ADDR1''] [] =
     (Inl (TypeError ''NoneType''), [price_request ''k'' ''ADDR1'']) \<and>
   TypeError ''NoneType'' \<noteq> ValueError (invalid_price_response ''ADDR1'')"
  by (simp add: fetch_prices_def make_api_call_GET send_def fixed_net_def value_of_def
        except_def bind_def price_info_def json_of_def price_request_def)

text \<open>
  C4. \<^verbatim>\<open>fetch_prices\<close> on the empty list raises the \<open>ValueError\<close> "No tokens provided.",
  whatever the network, the token and the requests issued before, and issues no request:
  the list of issued requests is returned as it was.
\<close>

theorem fetch_prices_empty:
  "fetch_prices net tok [] sent = (Inl (ValueError ''No tokens provided.''), sent)"
  by (simp add: fetch_prices_def)

text \<open>
  C9. Let the network answer the requests for the elements of a non-empty list, in their
  order, with JSON objects that hold the values \<open>vs\<close>. Then \<^verbatim>\<open>fetch_prices\<close> issues one
  request per element of the list, repeated addresses included, and returns a dictionary
  with one entry per distinct address: its keys are the addresses of the list, its size is
  the number of distinct addresses, which is smaller than the length of the list as soon
  as an address is repeated, and an address is mapped to the value answered to its last
  occurrence.
\<close>

theorem fetch_prices_duplicates:
  assumes "token_addresses \<noteq> []"
    and "map value_of (answers net sent (map (price_request tok) token_addresses)) =
           map Some vs"
  shows "\<exists>prices.
           fetch_prices net tok token_addresses sent =
             (Inr prices, sent @ map (price_request tok) token_addresses) \<and>
           distinct (map fst prices) \<and>
           fst ` set prices = set token_addresses \<and>
           length prices = card (set token_addresses) \<and>
           (\<not> distinct token_addresses \<longrightarrow> length prices < length token_addresses) \<and>
           (\<forall>i < length token_addresses.
              token_addresses ! i \<notin> set (drop (Suc i) token_addresses) \<longrightarrow>
              map_of prices (token_addresses ! i) = Some \<lparr>price = vs ! i\<rparr>)"
proof -
  let ?ps = "AList.updates token_addresses (map (\<lambda>v. \<lparr>price = v\<rparr>) vs) []"
  from assms(2)
  have "length (map value_of (answers net sent (map (price_request tok) token_addresses))) =
          length (map Some vs)"
    by (rule arg_cong)
  then have len: "length vs = length token_addresses"
    by (simp add: length_answers)
  from loop_all_values[OF assms(2)] assms(1)
  have run: "fetch_prices net tok token_addresses sent =
               (Inr ?ps, sent @ map (price_request tok) token_addresses)"
    by (simp add: fetch_prices_def)
  have dist: "distinct (map fst ?ps)"
    by (simp add: distinct_updates)
  have "dom (map_of ?ps) = set token_addresses"
    by (simp add: updates_conv' len)
  then have keys: "fst ` set ?ps = set token_addresses"
    by (simp add: dom_map_of_conv_image_fst)
  have "length ?ps = length (map fst ?ps)" by simp
  also have "\<dots> = card (set (map fst ?ps))"
    using dist by (simp only: distinct_card)
  also have "\<dots> = card (set token_addresses)"
    using keys by simp
  finally have size: "length ?ps = card (set token_addresses)" .
  have fewer: "\<not> distinct token_addresses \<longrightarrow> length ?ps < length token_addresses"
    using size card_length[of token_addresses] card_distinct[of token_addresses]
    by fastforce
  have last: "\<forall>i < length token_addresses.
              token_addresses ! i \<notin> set (drop (Suc i) token_addresses) \<longrightarrow>
              map_of ?ps (token_addresses ! i) = Some \<lparr>price = vs ! i\<rparr>"
    using upds_last[where ks = token_addresses and vs = "map (\<lambda>v. \<lparr>price = v\<rparr>) vs"
                      and m = Map.empty] len
    by (simp add: updates_conv')
  from run dist keys size fewer last show ?thesis by blast
qed

text \<open>
  An address asked twice, of a network whose price changes with every request: three
  requests, two entries, and the price of the repeated address is the one answered last.
\<close>

theorem fetch_prices_duplicates_witness:
  "[''A'', ''B'', ''A''] \<noteq> [] \<and>
   map value_of (answers counting_net [] (map (price_request ''k'') [''A'', ''B'', ''A''])) =
     map Some [JInt 0, JInt 1, JInt 2] \<and>
   fetch_prices counting_net ''k'' [''A'', ''B'', ''A''] [] =
     (Inr [(''A'', \<lparr>price = JInt 2\<rparr>), (''B'', \<lparr>price = JInt 1\<rparr>)],
      [price_request ''k'' ''A'', price_request ''k'' ''B'', price_request ''k'' ''A''])"
proof -
  have h1: "[''A'', ''B'', ''A''] \<noteq> []" by simp
  have h2: "map value_of
      (answers counting_net [] (map (price_request ''k'') [''A'', ''B'', ''A''])) =
     map Some [JInt 0, JInt 1, JInt 2]"
    by (simp add: counting_net_def value_of_def)
  from fetch_prices_duplicates[OF h1 h2] obtain prices where
    run: "fetch_prices counting_net ''k'' [''A'', ''B'', ''A''] [] =
            (Inr prices, [] @ map (price_request ''k'') [''A'', ''B'', ''A''])"
    and size: "length prices = card (set [''A'', ''B'', ''A''])"
    by blast
  have "fetch_prices counting_net ''k'' [''A'', ''B'', ''A''] [] =
     (Inr [(''A'', \<lparr>price = JInt 2\<rparr>), (''B'', \<lparr>price = JInt 1\<rparr>)],
      [price_request ''k'' ''A'', price_request ''k'' ''B'', price_request ''k'' ''A''])"
    by (simp add: fetch_prices_def make_api_call_GET send_def counting_net_def
          price_request_def except_def bind_def price_info_def json_of_def)
  with h1 h2 run show ?thesis by simp
qed

subsection \<open>Overview of a token\<close>

text \<open>
  C3. If the network answers the overview request for \<open>addr\<close> with a response whose body
  is a JSON object that holds a value under each of the ten keys \<^verbatim>\<open>address\<close>,
  \<^verbatim>\<open>decimals\<close>, \<^verbatim>\<open>liquidity\<close>, \<^verbatim>\<open>logoURI\<close>, \<^verbatim>\<open>mc\<close>, \<^verbatim>\<open>symbol\<close>, \<^verbatim>\<open>v24hChangePercent\<close>,
  \<^verbatim>\<open>v24hUSD\<close>, \<^verbatim>\<open>name\<close> and \<^verbatim>\<open>lastTradeUnixTime\<close>, then \<^verbatim>\<open>fetch_token_overview\<close> returns the
  \<^verbatim>\<open>TokenOverview\<close> whose ten fields are these ten values, unchanged.
\<close>

theorem fetch_token_overview_well_formed:
  assumes "net sent (overview_request tok addr) = Returns resp"
    and "json_body resp = Inr (JObj d)"
    and "d ''address'' = Some v1" and "d ''decimals'' = Some v2"
    and "d ''liquidity'' = Some v3" and "d ''logoURI'' = Some v4"
    and "d ''mc'' = Some v5" and "d ''symbol'' = Some v6"
    and "d ''v24hChangePercent'' = Some v7" and "d ''v24hUSD'' = Some v8"
    and "d ''name'' = Some v9" and "d ''lastTradeUnixTime'' = Some v10"
  shows "fetch_token_overview net tok addr sent =
           (Inr \<lparr>address = v1, decimals = v2, liquidity = v3, logoURI = v4, mc = v5,
                 symbol = v6, v24hChangePercent = v7, v24hUSD = v8, name = v9,
                 lastTradeUnixTime = v10\<rparr>,
            sent @ [overview_request tok addr])"
proof -
  have "token_overview resp =
          Inr \<lparr>address = v1, decimals = v2, liquidity = v3, logoURI = v4, mc = v5,
                symbol = v6, v24hChangePercent = v7, v24hUSD = v8, name = v9,
                lastTradeUnixTime = v10\<rparr>"
    using assms(2-) by (simp add: token_overview_def json_of_def bind_def)
  with assms(1) show ?thesis
    by (simp add: overview_step bind_def except_def)
qed

theorem fetch_token_overview_well_formed_witness:
  "fetch_token_overview (fixed_net 200 (Inr (JObj example_overview))) ''k'' ''So11'' [] =
     (Inr \<lparr>address = JStr ''So11'', decimals = JInt 9, liquidity = JFloat 1.5,
           logoURI = JStr ''https://x/y.png'', mc = JFloat 2.5, symbol = JStr ''SOL'',
           v24hChangePercent = JFloat (- 0.5), v24hUSD = JInt 7, name = JStr ''Solana'',
           lastTradeUnixTime = JInt 1700000000\<rparr>,
      [] @ [overview_request ''k'' ''So11''])"
  by (rule fetch_token_overview_well_formed
        [where resp = "\<lparr>status_code = 200, json_body = Inr (JObj example_overview)\<rparr>"
           and d = example_overview])
     (simp_all add: fixed_net_def example_overview_def)

text \<open>
  What the handler of the overview does catch. If the network answers the overview
  request for \<open>addr\<close> with a response whose body is not JSON, or is a JSON object that
  lacks one of the ten keys, then \<^verbatim>\<open>fetch_token_overview\<close> raises the \<open>ValueError\<close>
  "Invalid response received for token overview: \<open>addr\<close>".
\<close>

lemma overview_handler_catches:
  assumes "k \<in> set overview_keys"
    and "lacks k (net sent (overview_request tok addr))"
  shows "fetch_token_overview net tok addr sent =
           (Inl (ValueError (''Invalid response received for token overview: '' @ addr)),
            sent @ [overview_request tok addr])"
proof -
  from assms(2) obtain resp where resp: "net sent (overview_request tok addr) = Returns resp"
    by (cases "net sent (overview_request tok addr)") (auto simp: lacks_def)
  with assms(2)
  consider msg where "json_body resp = Inl msg"
    | d where "json_body resp = Inr (JObj d)" and "d k = None"
    by (auto simp: lacks_def split: sum.splits json.splits)
  then have "\<exists>e. token_overview resp = Inl e \<and> caught e"
  proof cases
    case 1
    then show ?thesis by (simp add: token_overview_not_json)
  next
    case 2
    from token_overview_missing[OF 2(1) assms(1) 2(2)] show ?thesis by auto
  qed
  with resp show ?thesis
    by (auto simp: overview_step bind_def except_def invalid_overview_response_def)
qed

text \<open>
  C5. A response that lacks one of the ten keys is to make \<^verbatim>\<open>fetch_token_overview\<close> raise
  the \<open>ValueError\<close> that names the address. The body \<^verbatim>\<open>[]\<close> is JSON and has none of the
  ten keys; on it the first subscript, \<^verbatim>\<open>data['address']\<close>, raises a \<open>TypeError\<close>, which
  \<^verbatim>\<open>except (ValueError, KeyError)\<close> does not catch. The call ends with that \<open>TypeError\<close>,
  not with the \<open>ValueError\<close> "Invalid response received for token overview: So11".
\<close>

theorem fetch_token_overview_array_body:
  "fetch_token_overview (fixed_net 200 (Inr (JArr []))) ''k'' ''So11'' [] =
     (Inl (TypeError ''list''), [overview_request ''k'' ''So11'']) \<and>
   TypeError ''list'' \<noteq> ValueError (invalid_overview_response ''So11'')"
  by (simp add: overview_step fixed_net_def except_def bind_def token_overview_def
        json_of_def)

subsection \<open>Dispatch on the method\<close>

text \<open>
  C6, as amended. For every method whose upper-case form is neither \<^verbatim>\<open>GET\<close> nor \<^verbatim>\<open>POST\<close>,
  and every URL, \<^verbatim>\<open>_make_api_call\<close> raises the \<open>ValueError\<close> whose message is
  \<^verbatim>\<open>Unrecognised method "\<close>, the method as it was passed, \<^verbatim>\<open>" passed for query - \<close> and the
  URL, and issues no request.
\<close>

theorem make_api_call_unsupported:
  assumes "upper method \<noteq> ''GET''" and "upper method \<noteq> ''POST''"
  shows "make_api_call net tok method query_url sent =
           (Inl (ValueError (''Unrecognised method '' @ [CHR 0x22] @ method @ [CHR 0x22] @
                             '' passed for query - '' @ query_url)), sent)"
  using assms by (simp add: make_api_call_def unrecognised_method_def)

theorem make_api_call_unsupported_witness:
  "upper ''DELETE'' \<noteq> ''GET'' \<and> upper ''DELETE'' \<noteq> ''POST'' \<and>
   make_api_call (fixed_net 200 empty_object) ''k'' ''DELETE'' ''https://x/y'' [] =
     (Inl (ValueError (''Unrecognised method '' @ [CHR 0x22] @ ''DELETE'' @ [CHR 0x22] @
                       '' passed for query - '' @ ''https://x/y'')), [])"
proof (intro conjI)
  show h1: "upper ''DELETE'' \<noteq> ''GET''" by (simp add: upper_DELETE)
  show h2: "upper ''DELETE'' \<noteq> ''POST''" by (simp add: upper_DELETE)
  show "make_api_call (fixed_net 200 empty_object) ''k'' ''DELETE'' ''https://x/y'' [] =
     (Inl (ValueError (''Unrecognised method '' @ [CHR 0x22] @ ''DELETE'' @ [CHR 0x22] @
                       '' passed for query - '' @ ''https://x/y'')), [])"
    by (rule make_api_call_unsupported[OF h1 h2])
qed

text \<open>
  The method \<^verbatim>\<open>get\<close> is a string other than \<^verbatim>\<open>GET\<close> and \<^verbatim>\<open>POST\<close>, and the call issues a
  GET request and returns its response.
\<close>

theorem make_api_call_lower_case_counterexample:
  "''get'' \<noteq> ''GET'' \<and> ''get'' \<noteq> ''POST'' \<and>
   make_api_call (fixed_net 200 empty_object) ''k'' ''get'' ''https://x/y'' [] =
     (Inr \<lparr>status_code = 200, json_body = empty_object\<rparr>,
      [\<lparr>req_verb = GET, req_url = ''https://x/y'', req_headers = headers ''k''\<rparr>])"
  by (simp add: make_api_call_def upper_get send_def fixed_net_def)

text \<open>
  C10. For every method whose upper-case form is \<^verbatim>\<open>GET\<close>, \<^verbatim>\<open>_make_api_call\<close> is
  \<^verbatim>\<open>requests.get\<close> on the URL with the client's headers, and likewise \<^verbatim>\<open>requests.post\<close> for
  \<^verbatim>\<open>POST\<close>. In both cases exactly one request is issued, so the branch that raises without
  issuing a request is not taken.
\<close>

theorem make_api_call_case_insensitive:
  "(upper method = ''GET'' \<longrightarrow>
      make_api_call net tok method query_url sent =
        send net \<lparr>req_verb = GET, req_url = query_url, req_headers = headers tok\<rparr> sent \<and>
      snd (make_api_call net tok method query_url sent) =
        sent @ [\<lparr>req_verb = GET, req_url = query_url, req_headers = headers tok\<rparr>]) \<and>
   (upper method = ''POST'' \<longrightarrow>
      make_api_call net tok method query_url sent =
        send net \<lparr>req_verb = POST, req_url = query_url, req_headers = headers tok\<rparr> sent \<and>
      snd (make_api_call net tok method query_url sent) =
        sent @ [\<lparr>req_verb = POST, req_url = query_url, req_headers = headers tok\<rparr>])"
  by (simp add: make_api_call_def send_def)

theorem make_api_call_case_insensitive_witness:
  "upper ''get'' = ''GET'' \<and> upper ''Post'' = ''POST'' \<and>
   make_api_call (fixed_net 200 empty_object) ''k'' ''get'' ''https://x/y'' [] =
     (Inr \<lparr>status_code = 200, json_body = empty_object\<rparr>,
      [\<lparr>req_verb = GET, req_url = ''https://x/y'', req_headers = headers ''k''\<rparr>]) \<and>
   make_api_call (fixed_net 200 empty_object) ''k'' ''Post'' ''https://x/y'' [] =
     (Inr \<lparr>status_code = 200, json_body = empty_object\<rparr>,
      [\<lparr>req_verb = POST, req_url = ''https://x/y'', req_headers = headers ''k''\<rparr>])"
  using make_api_call_case_insensitive
          [of "''get''" "fixed_net 200 empty_object" "''k''" "''https://x/y''" "[]"]
        make_api_call_case_insensitive
          [of "''Post''" "fixed_net 200 empty_object" "''k''" "''https://x/y''" "[]"]
  by (simp add: upper_get upper_Post send_def fixed_net_def)

subsection \<open>The status code\<close>

lemma without_status_json:
  assumes "without_status o1 = without_status o2"
  shows "bind (case o1 of Returns resp \<Rightarrow> Inr resp | Raises e \<Rightarrow> Inl e) json_of =
         bind (case o2 of Returns resp \<Rightarrow> Inr resp | Raises e \<Rightarrow> Inl e) json_of"
proof (cases o1)
  case (Returns r1)
  with assms obtain r2 where o2: "o2 = Returns r2"
    and eq: "r1\<lparr>status_code := 0\<rparr> = r2\<lparr>status_code := 0\<rparr>"
    by (cases o2) (auto simp: without_status_def)
  from eq have "json_body (r1\<lparr>status_code := 0\<rparr>) = json_body (r2\<lparr>status_code := 0\<rparr>)"
    by (rule arg_cong)
  then have "json_body r1 = json_body r2" by simp
  with Returns o2 show ?thesis by (simp add: bind_def json_of_def)
next
  case (Raises e)
  with assms have "o2 = Raises e"
    by (cases o2) (auto simp: without_status_def)
  with Raises show ?thesis by simp
qed

lemma bind_assoc: "bind (bind r f) g = bind r (\<lambda>x. bind (f x) g)"
  by (simp add: bind_def split: sum.splits)

lemma price_info_bind: "bind r price_info =
    bind (bind r json_of) (\<lambda>data. bind (subscript data ''value'') (\<lambda>v. Inr \<lparr>price = v\<rparr>))"
  unfolding bind_assoc by (simp add: price_info_def[abs_def])

lemma token_overview_bind: "\<exists>f. \<forall>r. bind r token_overview = bind (bind r json_of) f"
  unfolding bind_assoc token_overview_def[abs_def] by blast

lemma loop_status:
  assumes "\<forall>h r. without_status (net1 h r) = without_status (net2 h r)"
  shows "fetch_prices_loop net1 tok addrs prices sent =
         fetch_prices_loop net2 tok addrs prices sent"
proof (induction addrs arbitrary: prices sent)
  case Nil
  show ?case by simp
next
  case (Cons a addrs)
  from assms have "without_status (net1 sent (price_request tok a)) =
                   without_status (net2 sent (price_request tok a))"
    by blast
  from without_status_json[OF this] show ?case
    unfolding price_step price_info_bind
    by (simp add: Cons.IH cong: sum.case_cong)
qed

text \<open>
  C8. Two networks whose answers differ at most in the status codes of the responses give
  the same run of \<^verbatim>\<open>fetch_prices\<close> and of \<^verbatim>\<open>fetch_token_overview\<close>: the same result or the
  same error, after the same requests.
\<close>

theorem status_code_not_inspected:
  assumes "\<forall>h r. without_status (net1 h r) = without_status (net2 h r)"
  shows "fetch_prices net1 tok token_addresses sent =
           fetch_prices net2 tok token_addresses sent \<and>
         fetch_token_overview net1 tok addr sent = fetch_token_overview net2 tok addr sent"
proof
  show "fetch_prices net1 tok token_addresses sent =
          fetch_prices net2 tok token_addresses sent"
    by (simp add: fetch_prices_def loop_status[OF assms])
  from assms have "without_status (net1 sent (overview_request tok addr)) =
                   without_status (net2 sent (overview_request tok addr))"
    by blast
  from without_status_json[OF this] token_overview_bind
  show "fetch_token_overview net1 tok addr sent = fetch_token_overview net2 tok addr sent"
    unfolding overview_step by auto
qed

text \<open>The same body with status 200 and with status 500.\<close>

theorem status_code_not_inspected_witness:
  "fixed_net 200 example_body [] (price_request ''k'' ''ADDR1'') \<noteq>
     fixed_net 500 example_body [] (price_request ''k'' ''ADDR1'') \<and>
   fetch_prices (fixed_net 200 example_body) ''k'' [''ADDR1''] [] =
     fetch_prices (fixed_net 500 example_body) ''k'' [''ADDR1''] [] \<and>
   fetch_token_overview (fixed_net 200 example_body) ''k'' ''ADDR1'' [] =
     fetch_token_overview (fixed_net 500 example_body) ''k'' ''ADDR1'' [] \<and>
   fetch_prices (fixed_net 500 example_body) ''k'' [''ADDR1''] [] =
     (Inr [(''ADDR1'', \<lparr>price = JFloat 1.23\<rparr>)], [price_request ''k'' ''ADDR1'']) \<and>
   fetch_token_overview (fixed_net 500 example_body) ''k'' ''ADDR1'' [] =
     (Inl (ValueError (invalid_overview_response ''ADDR1'')), [overview_request ''k'' ''ADDR1''])"
proof -
  have h: "\<forall>h r. without_status (fixed_net 200 example_body h r) =
                  without_status (fixed_net 500 example_body h r)"
    by (simp add: without_status_def fixed_net_def)
  have d: "fixed_net 200 example_body [] (price_request ''k'' ''ADDR1'') \<noteq>
     fixed_net 500 example_body [] (price_request ''k'' ''ADDR1'')"
    by (simp add: fixed_net_def)
  have r: "fetch_prices (fixed_net 500 example_body) ''k'' [''ADDR1''] [] =
     (Inr [(''ADDR1'', \<lparr>price = JFloat 1.23\<rparr>)], [price_request ''k'' ''ADDR1''])"
    by (simp add: fetch_prices_def make_api_call_GET send_def fixed_net_def example_body_def
          price_request_def except_def bind_def price_info_def json_of_def)
  have t: "fetch_token_overview (fixed_net 500 example_body) ''k'' ''ADDR1'' [] =
     (Inl (ValueError (invalid_overview_response ''ADDR1'')), [overview_request ''k'' ''ADDR1''])"
    by (simp add: overview_step fixed_net_def example_body_def except_def bind_def
          token_overview_def json_of_def)
  from status_code_not_inspected
         [OF h, where tok = "''k''" and token_addresses = "[''ADDR1'']" and sent = "[]"
            and addr = "''ADDR1''"] d r t
  show ?thesis by (intro conjI) (simp_all only: simp_thms)
qed

subsection \<open>The kinds of error\<close>

lemma kind_invalid_price:
  "error_kind (ValueError (invalid_price_response a)) = Some InvalidResponse"
  by (simp add: error_kind_def starts_with_def invalid_price_response_def)

lemma kind_invalid_overview:
  "error_kind (ValueError (invalid_overview_response a)) = Some InvalidResponse"
  by (simp add: error_kind_def starts_with_def invalid_overview_response_def)

lemma kind_unrecognised:
  "error_kind (ValueError (unrecognised_method m u)) = Some UnsupportedMethod"
  by (simp add: error_kind_def starts_with_def unrecognised_method_def)

text \<open>
  The errors that the client raises itself are all \<open>ValueError\<close>s, told apart by their
  messages: the test \<open>error_kind\<close> answers \<open>InvalidInput\<close> for the error of
  \<^verbatim>\<open>fetch_prices\<close> on the empty list; \<open>InvalidResponse\<close> for every \<open>ValueError\<close> or
  \<open>KeyError\<close> that leaves \<^verbatim>\<open>fetch_prices\<close> on a non-empty list or leaves
  \<^verbatim>\<open>fetch_token_overview\<close>, which is the \<open>ValueError\<close> of the handler, with an address at
  the end of its message; \<open>UnsupportedMethod\<close> for the error of \<^verbatim>\<open>_make_api_call\<close> on a
  method that is neither \<^verbatim>\<open>GET\<close> nor \<^verbatim>\<open>POST\<close>.
\<close>

lemma handled_errors_classified:
  "(\<exists>e. fst (fetch_prices net tok [] sent) = Inl e \<and> error_kind e = Some InvalidInput) \<and>
   (\<forall>e. token_addresses \<noteq> [] \<and> fst (fetch_prices net tok token_addresses sent) = Inl e \<and>
         caught e \<longrightarrow>
         (\<exists>a \<in> set token_addresses. e = ValueError (invalid_price_response a)) \<and>
         error_kind e = Some InvalidResponse) \<and>
   (\<forall>e. fst (fetch_token_overview net tok addr sent) = Inl e \<and> caught e \<longrightarrow>
         e = ValueError (invalid_overview_response addr) \<and>
         error_kind e = Some InvalidResponse) \<and>
   (upper method \<noteq> ''GET'' \<and> upper method \<noteq> ''POST'' \<longrightarrow>
      fst (make_api_call net tok method query_url sent) =
        Inl (ValueError (unrecognised_method method query_url)) \<and>
      error_kind (ValueError (unrecognised_method method query_url)) = Some UnsupportedMethod) \<and>
   drop (length ''Invalid response received for token: '') (invalid_price_response a) = a \<and>
   drop (length ''Invalid response received for token overview: '')
     (invalid_overview_response a) = a"
proof (intro conjI allI impI)
  show "\<exists>e. fst (fetch_prices net tok [] sent) = Inl e \<and> error_kind e = Some InvalidInput"
    by (simp add: fetch_prices_def error_kind_def)
next
  fix e
  assume a: "token_addresses \<noteq> [] \<and> fst (fetch_prices net tok token_addresses sent) = Inl e \<and>
         caught e"
  then have "fst (fetch_prices_loop net tok token_addresses [] sent) = Inl e"
    by (auto simp: fetch_prices_def)
  then have "fetch_prices_loop net tok token_addresses [] sent =
      (Inl e, snd (fetch_prices_loop net tok token_addresses [] sent))"
    by (simp add: prod_eq_iff)
  from loop_error[OF this] a
  show ex: "\<exists>a \<in> set token_addresses. e = ValueError (invalid_price_response a)" by simp
  then show "error_kind e = Some InvalidResponse"
    by (auto simp: kind_invalid_price)
next
  fix e
  assume a: "fst (fetch_token_overview net tok addr sent) = Inl e \<and> caught e"
  then show eq: "e = ValueError (invalid_overview_response addr)"
    by (auto simp: overview_step dest: except_caught)
  then show "error_kind e = Some InvalidResponse"
    by (simp add: kind_invalid_overview)
next
  assume "upper method \<noteq> ''GET'' \<and> upper method \<noteq> ''POST''"
  then show "fst (make_api_call net tok method query_url sent) =
        Inl (ValueError (unrecognised_method method query_url))"
    by (simp add: make_api_call_def)
  show "error_kind (ValueError (unrecognised_method method query_url)) = Some UnsupportedMethod"
    by (rule kind_unrecognised)
next
  show "drop (length ''Invalid response received for token: '') (invalid_price_response a) = a"
    by (simp add: invalid_price_response_def)
  show "drop (length ''Invalid response received for token overview: '')
     (invalid_overview_response a) = a"
    by (simp add: invalid_overview_response_def)
qed

text \<open>
  C7. Every failure of the client is to be of one of three kinds that the caller can tell
  apart. A response whose body is the JSON array \<^verbatim>\<open>[]\<close> has no field \<^verbatim>\<open>value\<close>, yet
  \<^verbatim>\<open>fetch_prices\<close> does not fail with the error for an invalid response: the \<open>TypeError\<close> of
  the subscript is not among the classes of \<^verbatim>\<open>except (ValueError, KeyError)\<close> and reaches
  the caller as it is, an error of none of the three kinds.
\<close>

theorem fetch_prices_unclassified_error:
  "fetch_prices (fixed_net 200 (Inr (JArr []))) ''k'' [''ADDR1''] [] =
     (Inl (TypeError ''list''), [price_request ''k'' ''ADDR1'']) \<and>
   \<not> caught (TypeError ''list'') \<and>
   error_kind (TypeError ''list'') = None"
  by (simp add: fetch_prices_def make_api_call_GET send_def fixed_net_def
        except_def bind_def price_info_def json_of_def price_request_def error_kind_def)

end
